theory Spec2Isabelle
  imports Main "HOL-Library.Word" "HOL-Library.AList"
begin

section \<open>Python values\<close>

text \<open>
  Both scripts move Python objects around without computing on them, so one type of
  values serves the encoder (\<open>parser.py\<close>) and the decoder (\<open>unparser.py\<close>).

  \<^item> The primitives are the objects that occur as constants of a syntax tree or as
    JSON scalars: \<open>None\<close>, booleans, integers (unbounded), floats (the 64 bits of the
    double), complex numbers (two doubles), \<open>str\<close>, \<open>bytes\<close> and \<open>Ellipsis\<close>.
  \<^item> \<open>PList\<close> is a Python list.
  \<^item> \<open>PDict\<close> is a Python dictionary with string keys, in insertion order. Storing under
    a key is \<open>AList.update\<close> (replace in place, or append), reading is \<open>map_of\<close>.
  \<^item> \<open>PNode c fs at\<close> is an instance of a class of the \<open>ast\<close> module: \<open>c\<close> is
    \<open>node.__class__.__name__\<close>, \<open>fs\<close> is the tuple \<open>node._fields\<close>, and \<open>at\<close> holds,
    for the names that the scripts ask for (the fields and the four position names), the
    value that \<open>getattr(node, name)\<close> finds, class-level defaults included. So
    \<open>hasattr(node, name)\<close> is \<open>map_of at name \<noteq> None\<close>.

  The interpreter's recursion limit and memory are not modelled.
\<close>

datatype pyval =
    PNone
  | PBool bool
  | PInt int
  | PFloat "64 word"
  | PComplex "64 word" "64 word"
  | PStr string
  | PBytes "8 word list"
  | PEllipsis
  | PList "pyval list"
  | PDict "(string \<times> pyval) list"
  | PNode string "string list" "(string \<times> pyval) list"

type_synonym dict = "(string \<times> pyval) list"

text \<open>\<open>type(v).__name__\<close>\<close>

fun py_type_name :: "pyval \<Rightarrow> string" where
  "py_type_name PNone = ''NoneType''"
| "py_type_name (PBool b) = ''bool''"
| "py_type_name (PInt i) = ''int''"
| "py_type_name (PFloat x) = ''float''"
| "py_type_name (PComplex x y) = ''complex''"
| "py_type_name (PStr s) = ''str''"
| "py_type_name (PBytes bs) = ''bytes''"
| "py_type_name PEllipsis = ''ellipsis''"
| "py_type_name (PList xs) = ''list''"
| "py_type_name (PDict d) = ''dict''"
| "py_type_name (PNode c fs at) = c"

text \<open>\<open>d.get(k)\<close> on a dictionary; \<open>None\<close> on anything else.\<close>

fun lookup :: "pyval \<Rightarrow> string \<Rightarrow> pyval option" where
  "lookup (PDict d) k = map_of d k"
| "lookup v k = None"

section \<open>Exceptions\<close>

text \<open>
  The exceptions are the instances of \<open>Exception\<close>. \<open>SyntaxError cls s msg lineno offset text\<close>
  is an instance of \<open>SyntaxError\<close> or of a subclass named \<open>cls\<close>, with \<open>str(e) = s\<close> and the
  attributes \<open>e.msg\<close>, \<open>e.lineno\<close>, \<open>e.offset\<close>, \<open>e.text\<close> (each may be \<open>None\<close>; the class
  always defines them). \<open>Exception cls s\<close> is any other exception, of the class named
  \<open>cls\<close>, with \<open>str(e) = s\<close>.
\<close>

datatype exn =
    SyntaxError string string "string option" "int option" "int option" "string option"
  | Exception string string

fun exn_type_name :: "exn \<Rightarrow> string" where
  "exn_type_name (SyntaxError cls s msg lineno offset txt) = cls"
| "exn_type_name (Exception cls s) = cls"

fun exn_str :: "exn \<Rightarrow> string" where
  "exn_str (SyntaxError cls s msg lineno offset txt) = s"
| "exn_str (Exception cls s) = s"

definition is_import_error :: "exn \<Rightarrow> bool" where
  "is_import_error e \<longleftrightarrow> exn_type_name e \<in> {''ImportError'', ''ModuleNotFoundError''}"

section \<open>The grammar engine\<close>

text \<open>
  The grammar engine is the standard library, which is not part of the repository. The
  scripts use it through these entry points, taken as parameters:
  \<^item> \<open>ast_parse\<close>: \<open>ast.parse(source)\<close>;
  \<^item> \<open>ast_getattr\<close>: \<open>getattr(ast, name, None)\<close> for a string \<open>name\<close>, as the callable it
    finds (\<open>node_class(**flds)\<close> applies it to the keyword dictionary), or \<open>None\<close>;
  \<^item> \<open>ast_unparse\<close>: \<open>ast.unparse\<close>, or \<open>None\<close> where \<open>hasattr(ast, 'unparse')\<close> is false;
  \<^item> \<open>astor_to_source\<close>: \<open>astor.to_source\<close>, or \<open>None\<close> where \<open>import astor\<close> raises
    \<open>ImportError\<close>;
  \<^item> \<open>compile_repr\<close>: \<open>compile(tree, '<string>', 'exec').__repr__()\<close>.
\<close>

record engine =
  ast_parse :: "string \<Rightarrow> exn + pyval"
  ast_getattr :: "string \<Rightarrow> (dict \<Rightarrow> exn + pyval) option"
  ast_unparse :: "(pyval \<Rightarrow> exn + string) option"
  astor_to_source :: "(pyval \<Rightarrow> exn + string) option"
  compile_repr :: "pyval \<Rightarrow> exn + string"

section \<open>The encoder: parser.py\<close>

text \<open>
  \<open>ast.iter_fields(node)\<close>: for each name of \<open>node._fields\<close>, in order, the name and
  \<open>getattr(node, name)\<close>; a name whose attribute is missing is skipped.
\<close>

fun iter_fields :: "string list \<Rightarrow> dict \<Rightarrow> (string \<times> pyval) list" where
  "iter_fields [] at = []"
| "iter_fields (f # fs) at =
     (case map_of at f of
        None \<Rightarrow> iter_fields fs at
      | Some v \<Rightarrow> (f, v) # iter_fields fs at)"

text \<open>\<open>if hasattr(node, k): result[k] = getattr(node, k)\<close>\<close>

definition copy_attr :: "dict \<Rightarrow> string \<Rightarrow> dict \<Rightarrow> dict" where
  "copy_attr at k result =
     (case map_of at k of None \<Rightarrow> result | Some v \<Rightarrow> AList.update k v result)"

lemma iter_fields_subset: "(f, v) \<in> set (iter_fields fs at) \<Longrightarrow> (f, v) \<in> set at"
  by (induction fs) (auto split: option.splits dest: map_of_SomeD)

lemma size_list_member: "x \<in> set xs \<Longrightarrow> size (x::pyval) < Suc (size_list size xs)"
  by (induction xs) auto

lemma size_dict_member:
  "(k, v) \<in> set d \<Longrightarrow> size (v::pyval) < Suc (size_list (size_prod (\<lambda>x. 0) size) d)"
  by (induction d) auto

lemma size_field_value:
  "(f, v) \<in> set (iter_fields fs at) \<Longrightarrow>
   size v < Suc (size_list (size_prod (\<lambda>x. 0) size) at)"
  by (rule size_dict_member) (rule iter_fields_subset)

function ast_to_dict :: "pyval \<Rightarrow> pyval" where
  "ast_to_dict (PNode c fs at) =
     PDict (fold (\<lambda>(field, value) result.
                    AList.update field
                      (case value of
                         PList xs \<Rightarrow> PList (map ast_to_dict xs)
                       | _ \<Rightarrow> ast_to_dict value) result)
                 (iter_fields fs at)
                 (copy_attr at ''end_col_offset''
                   (copy_attr at ''end_lineno''
                     (copy_attr at ''col_offset''
                       (copy_attr at ''lineno'' [(''_type'', PStr c)])))))"
| "ast_to_dict (PList xs) = PList (map ast_to_dict xs)"
| "ast_to_dict PNone = PNone"
| "ast_to_dict (PBool b) = PBool b"
| "ast_to_dict (PInt i) = PInt i"
| "ast_to_dict (PFloat x) = PFloat x"
| "ast_to_dict (PComplex x y) = PComplex x y"
| "ast_to_dict (PStr s) = PStr s"
| "ast_to_dict (PBytes bs) = PBytes bs"
| "ast_to_dict PEllipsis = PEllipsis"
| "ast_to_dict (PDict d) = PDict d"
  by pat_completeness auto
termination
  by (relation "measure size")
     (auto dest!: size_field_value size_list_member)

text \<open>\<open>None\<close> or the value, as a Python object.\<close>

definition opt_int :: "int option \<Rightarrow> pyval" where
  "opt_int x = (case x of None \<Rightarrow> PNone | Some i \<Rightarrow> PInt i)"

definition opt_str :: "string option \<Rightarrow> pyval" where
  "opt_str x = (case x of None \<Rightarrow> PNone | Some s \<Rightarrow> PStr s)"

text \<open>\<open>str(e.msg)\<close>: the message, or the text \<open>None\<close>.\<close>

definition str_msg :: "string option \<Rightarrow> string" where
  "str_msg m = (case m of None \<Rightarrow> ''None'' | Some s \<Rightarrow> s)"

definition parse_source :: "engine \<Rightarrow> string \<Rightarrow> pyval" where
  "parse_source eng source =
     (case ast_parse eng source of
        Inr tree \<Rightarrow>
          PDict [(''ok'', PBool True), (''ast'', ast_to_dict tree)]
      | Inl (SyntaxError cls s msg lineno offset txt) \<Rightarrow>
          PDict [(''ok'', PBool False),
                 (''error'', PDict [(''type'', PStr ''SyntaxError''),
                                    (''msg'', PStr (str_msg msg)),
                                    (''lineno'', opt_int lineno),
                                    (''offset'', opt_int offset),
                                    (''text'', opt_str txt)])]
      | Inl (Exception cls s) \<Rightarrow>
          PDict [(''ok'', PBool False),
                 (''error'', PDict [(''type'', PStr cls), (''msg'', PStr s)])])"

section \<open>The process boundary\<close>

text \<open>
  \<open>json.dumps\<close> accepts \<open>None\<close>, booleans, integers, floats, strings, lists and
  dictionaries with string keys, and raises \<open>TypeError\<close> at the first other object it
  meets, in list and insertion order. \<open>unserializable v\<close> is the type name of that object.
  (The interpreter's limit on the number of digits of an integer it prints is not
  modelled.)
\<close>

fun first_some :: "'a option list \<Rightarrow> 'a option" where
  "first_some [] = None"
| "first_some (None # xs) = first_some xs"
| "first_some (Some x # xs) = Some x"

fun unserializable :: "pyval \<Rightarrow> string option" where
  "unserializable PNone = None"
| "unserializable (PBool b) = None"
| "unserializable (PInt i) = None"
| "unserializable (PFloat x) = None"
| "unserializable (PStr s) = None"
| "unserializable (PComplex x y) = Some ''complex''"
| "unserializable (PBytes bs) = Some ''bytes''"
| "unserializable PEllipsis = Some ''ellipsis''"
| "unserializable (PNode c fs at) = Some c"
| "unserializable (PList xs) = first_some (map unserializable xs)"
| "unserializable (PDict d) = first_some (map (\<lambda>(k, v). unserializable v) d)"

text \<open>
  A line of output is identified with the JSON document that it spells; the spelling
  itself (escapes, number formats) is not modelled.
\<close>

datatype line = Json pyval

definition json_dumps :: "pyval \<Rightarrow> exn + line" where
  "json_dumps v =
     (case unserializable v of
        None \<Rightarrow> Inr (Json v)
      | Some t \<Rightarrow>
          Inl (Exception ''TypeError''
                 (''Object of type '' @ t @ '' is not JSON serializable'')))"

text \<open>
  What a run of a script leaves behind: the lines printed to standard output, and the
  exception that ended the run, if one escaped \<open>main\<close> (the interpreter then prints a
  traceback to standard error and exits with status 1).
\<close>

record process =
  stdout :: "line list"
  uncaught :: "exn option"

text \<open>\<open>print(json.dumps(v))\<close> outside any \<open>try\<close>.\<close>

definition print_json :: "pyval \<Rightarrow> process" where
  "print_json v =
     (case json_dumps v of
        Inl e \<Rightarrow> \<lparr>stdout = [], uncaught = Some e\<rparr>
      | Inr l \<Rightarrow> \<lparr>stdout = [l], uncaught = None\<rparr>)"

text \<open>\<open>main\<close> of \<open>parser.py\<close>; the argument is \<open>sys.stdin.read()\<close>.\<close>

definition parser_main :: "engine \<Rightarrow> string \<Rightarrow> process" where
  "parser_main eng source = (let result = parse_source eng source in print_json result)"

section \<open>The decoder: unparser.py\<close>

text \<open>\<open>key.startswith('_')\<close>\<close>

fun startswith_underscore :: "string \<Rightarrow> bool" where
  "startswith_underscore [] = False"
| "startswith_underscore (c # cs) = (c = CHR ''_'')"

definition position_keys :: "string list" where
  "position_keys = [''lineno'', ''col_offset'', ''end_lineno'', ''end_col_offset'']"

text \<open>The test of line 36: the keys that the loop passes over.\<close>

definition skipped :: "string \<Rightarrow> bool" where
  "skipped key \<longleftrightarrow> startswith_underscore key \<or> key \<in> set position_keys"

text \<open>
  \<open>dict_to_ast\<close>, with its two loops as functions of their own: \<open>dict_to_ast_items\<close> is
  the comprehension \<open>[dict_to_ast(item) for item in value]\<close>, and \<open>prepare_fields\<close> is the
  loop over \<open>data.items()\<close>, from the items still to visit and the dictionary \<open>flds\<close>
  (the \<open>fields\<close> of the source) built so far. An exception ends each of them at once.

  \<open>getattr(ast, node_type, None)\<close> raises \<open>TypeError\<close> when \<open>node_type\<close> is not a string.
\<close>

function (sequential) dict_to_ast :: "engine \<Rightarrow> pyval \<Rightarrow> exn + pyval"
  and dict_to_ast_items :: "engine \<Rightarrow> pyval list \<Rightarrow> exn + pyval list"
  and prepare_fields :: "engine \<Rightarrow> dict \<Rightarrow> dict \<Rightarrow> exn + dict"
where
  "dict_to_ast eng (PDict data) =
     (case map_of data ''_type'' of
        None \<Rightarrow> Inr (PDict data)
      | Some (PStr node_type) \<Rightarrow>
          (case ast_getattr eng node_type of
             None \<Rightarrow>
               Inl (Exception ''ValueError'' (''Unknown AST node type: '' @ node_type))
           | Some node_class \<Rightarrow>
               (case prepare_fields eng data [] of
                  Inl e \<Rightarrow> Inl e
                | Inr flds \<Rightarrow> node_class flds))
      | Some v \<Rightarrow>
          Inl (Exception ''TypeError''
                 (''attribute name must be string, not '' @
                  [CHR 0x27] @ py_type_name v @ [CHR 0x27])))"
| "dict_to_ast eng (PList xs) =
     (case dict_to_ast_items eng xs of Inl e \<Rightarrow> Inl e | Inr ys \<Rightarrow> Inr (PList ys))"
| "dict_to_ast eng v = Inr v"
| "dict_to_ast_items eng [] = Inr []"
| "dict_to_ast_items eng (x # xs) =
     (case dict_to_ast eng x of
        Inl e \<Rightarrow> Inl e
      | Inr y \<Rightarrow>
          (case dict_to_ast_items eng xs of
             Inl e \<Rightarrow> Inl e
           | Inr ys \<Rightarrow> Inr (y # ys)))"
| "prepare_fields eng [] flds = Inr flds"
| "prepare_fields eng ((key, value) # rest) flds =
     (if skipped key then prepare_fields eng rest flds
      else
        (case (case value of
                 PList xs \<Rightarrow>
                   (case dict_to_ast_items eng xs of
                      Inl e \<Rightarrow> Inl e
                    | Inr ys \<Rightarrow> Inr (PList ys))
               | _ \<Rightarrow> dict_to_ast eng value) of
           Inl e \<Rightarrow> Inl e
         | Inr v \<Rightarrow> prepare_fields eng rest (AList.update key v flds)))"
  by pat_completeness auto
termination
  by (relation "measure (\<lambda>x. case x of
          Inl (eng, v) \<Rightarrow> 2 * size v
        | Inr (Inl (eng, xs)) \<Rightarrow> 2 * size_list size xs + 1
        | Inr (Inr (eng, d, flds)) \<Rightarrow>
            2 * size_list (size_prod (\<lambda>x. 0) size) d + 1)")
     auto

text \<open>Lines 67 to 77 of \<open>unparse_ast\<close>: the source text of a tree.\<close>

definition tree_source :: "engine \<Rightarrow> pyval \<Rightarrow> exn + string" where
  "tree_source eng tree =
     (case ast_unparse eng of
        Some unparse \<Rightarrow> unparse tree
      | None \<Rightarrow>
          (case astor_to_source eng of
             None \<Rightarrow> compile_repr eng tree
           | Some to_source \<Rightarrow>
               (case to_source tree of
                  Inr s \<Rightarrow> Inr s
                | Inl e \<Rightarrow> if is_import_error e then compile_repr eng tree else Inl e)))"

text \<open>The body of the \<open>try\<close> of \<open>unparse_ast\<close>.\<close>

definition unparse_try :: "engine \<Rightarrow> pyval \<Rightarrow> exn + string" where
  "unparse_try eng ast_dict =
     (case dict_to_ast eng ast_dict of
        Inl e \<Rightarrow> Inl e
      | Inr tree \<Rightarrow> tree_source eng tree)"

definition unparse_ast :: "engine \<Rightarrow> pyval \<Rightarrow> exn + string" where
  "unparse_ast eng ast_dict =
     (case unparse_try eng ast_dict of
        Inr source \<Rightarrow> Inr source
      | Inl e \<Rightarrow> Inl (Exception ''ValueError'' (''Failed to unparse AST: '' @ exn_str e)))"

text \<open>\<open>isinstance(data, dict) and '_type' in data\<close>\<close>

definition has_type :: "pyval \<Rightarrow> bool" where
  "has_type data \<longleftrightarrow> (case data of PDict d \<Rightarrow> map_of d ''_type'' \<noteq> None | _ \<Rightarrow> False)"

definition failure :: "string \<Rightarrow> string \<Rightarrow> pyval" where
  "failure t m =
     PDict [(''ok'', PBool False),
            (''error'', PDict [(''type'', PStr t), (''msg'', PStr m)])]"

text \<open>
  \<open>main\<close> of \<open>unparser.py\<close>; the argument is the outcome of
  \<open>json.loads(sys.stdin.read())\<close>, which runs before the first \<open>try\<close>.
\<close>

definition unparser_main :: "engine \<Rightarrow> exn + pyval \<Rightarrow> process" where
  "unparser_main eng loaded =
     (case loaded of
        Inl e \<Rightarrow> \<lparr>stdout = [], uncaught = Some e\<rparr>
      | Inr data \<Rightarrow>
          if \<not> has_type data then print_json (failure ''ValueError'' ''Invalid AST format'')
          else
            (case (case unparse_ast eng data of
                     Inl e \<Rightarrow> Inl e
                   | Inr source \<Rightarrow>
                       json_dumps (PDict [(''ok'', PBool True), (''source'', PStr source)])) of
               Inr l \<Rightarrow> \<lparr>stdout = [l], uncaught = None\<rparr>
             | Inl e \<Rightarrow> print_json (failure (exn_type_name e) (exn_str e))))"

section \<open>Trees up to position metadata\<close>

text \<open>
  The shape of a tree with the position metadata left out: of a node, the class, the
  tuple \<open>_fields\<close>, and the fields that the node has (in the order of \<open>_fields\<close>), each
  with the shape of its value; the four position names and every attribute that is not
  a field are dropped.
\<close>

function skeleton :: "pyval \<Rightarrow> pyval" where
  "skeleton (PNode c fs at) =
     PNode c fs (map (\<lambda>(f, v). (f, skeleton v))
                     (filter (\<lambda>(f, v). f \<notin> set position_keys) (iter_fields fs at)))"
| "skeleton (PList xs) = PList (map skeleton xs)"
| "skeleton PNone = PNone"
| "skeleton (PBool b) = PBool b"
| "skeleton (PInt i) = PInt i"
| "skeleton (PFloat x) = PFloat x"
| "skeleton (PComplex x y) = PComplex x y"
| "skeleton (PStr s) = PStr s"
| "skeleton (PBytes bs) = PBytes bs"
| "skeleton PEllipsis = PEllipsis"
| "skeleton (PDict d) = PDict d"
  by pat_completeness auto
termination
  by (relation "measure size")
     (auto dest!: size_field_value size_list_member)

text \<open>
  What the round trip needs from the engine, for a class named \<open>c\<close> with the fields
  \<open>fs\<close>: the name resolves, and calling what it resolves to with keyword arguments
  returns an instance of \<open>c\<close> on which each field that has an argument holds that
  argument. (What a field without an argument holds differs between versions of the
  library and is left open.)
\<close>

definition constructs :: "engine \<Rightarrow> string \<Rightarrow> string list \<Rightarrow> bool" where
  "constructs eng c fs \<longleftrightarrow>
     (\<exists>node_class. ast_getattr eng c = Some node_class \<and>
        (\<forall>kwargs. \<exists>at. node_class kwargs = Inr (PNode c fs at) \<and>
                         (\<forall>f \<in> set fs. \<forall>v. map_of kwargs f = Some v \<longrightarrow>
                                                   map_of at f = Some v)))"

text \<open>
  The trees of the engine's grammar, as its parser builds them: nodes of classes that the
  engine constructs, with every field set and no field name beginning with an
  underscore, holding such trees, lists of them, and constants; no dictionaries.
\<close>

function native :: "engine \<Rightarrow> pyval \<Rightarrow> bool" where
  "native eng (PNode c fs at) \<longleftrightarrow>
     constructs eng c fs \<and>
     (\<forall>f \<in> set fs. \<not> startswith_underscore f \<and> map_of at f \<noteq> None) \<and>
     (\<forall>(f, v) \<in> set (iter_fields fs at). native eng v)"
| "native eng (PList xs) \<longleftrightarrow> (\<forall>x \<in> set xs. native eng x)"
| "native eng (PDict d) \<longleftrightarrow> False"
| "native eng PNone \<longleftrightarrow> True"
| "native eng (PBool b) \<longleftrightarrow> True"
| "native eng (PInt i) \<longleftrightarrow> True"
| "native eng (PFloat x) \<longleftrightarrow> True"
| "native eng (PComplex x y) \<longleftrightarrow> True"
| "native eng (PStr s) \<longleftrightarrow> True"
| "native eng (PBytes bs) \<longleftrightarrow> True"
| "native eng PEllipsis \<longleftrightarrow> True"
  by pat_completeness auto
termination
  by (relation "measure (\<lambda>(eng, v). size v)")
     (auto dest!: size_field_value size_list_member)

section \<open>A small engine for concrete runs\<close>

text \<open>
  The theorems below hold for every engine. Their instances are run on this one, a table
  of what CPython 3.11 answers: four source texts, ten classes, and two attributes of the
  \<open>ast\<close> module that are not classes, the integer \<open>PyCF_ONLY_AST\<close> and the function
  \<open>parse\<close>. Outside the table it raises \<open>NotImplementedError\<close>.
  \<^item> A class called with keyword arguments returns an instance that has those arguments
    as attributes. The statement and expression classes (marked \<open>True\<close> in the table)
    define \<open>end_lineno\<close> and \<open>end_col_offset\<close> as \<open>None\<close> on the class, so every instance
    has them; \<open>lineno\<close> and \<open>col_offset\<close> exist only when set.
  \<^item> \<open>ast.unparse\<close> reads \<open>node.lineno\<close> of an assignment, for its type comment, after
    it has written the targets and the value.
\<close>

definition test_classes :: "(string \<times> string list \<times> bool) list" where
  "test_classes =
     [(''Module'', [''body'', ''type_ignores''], False),
      (''Expr'', [''value''], True),
      (''Constant'', [''value'', ''kind''], True),
      (''Pass'', [], True),
      (''Name'', [''id'', ''ctx''], True),
      (''Load'', [], False),
      (''Store'', [], False),
      (''Assign'', [''targets'', ''value'', ''type_comment''], True),
      (''BinOp'', [''left'', ''op'', ''right''], True),
      (''Add'', [], False)]"

definition class_defaults :: "bool \<Rightarrow> dict" where
  "class_defaults located =
     (if located then [(''end_lineno'', PNone), (''end_col_offset'', PNone)] else [])"

definition span :: "int \<Rightarrow> int \<Rightarrow> int \<Rightarrow> int \<Rightarrow> dict" where
  "span l c el ec =
     [(''lineno'', PInt l), (''col_offset'', PInt c),
      (''end_lineno'', PInt el), (''end_col_offset'', PInt ec)]"

definition module_of :: "pyval list \<Rightarrow> pyval" where
  "module_of body =
     PNode ''Module'' [''body'', ''type_ignores'']
       [(''body'', PList body), (''type_ignores'', PList [])]"

definition constant_of :: "pyval \<Rightarrow> dict \<Rightarrow> pyval" where
  "constant_of v pos =
     PNode ''Constant'' [''value'', ''kind''] ([(''value'', v), (''kind'', PNone)] @ pos)"

text \<open>The statement of the source text \<open>x = 1 + 2\<close>, as the parser builds it.\<close>

definition assign_stmt :: pyval where
  "assign_stmt =
     PNode ''Assign'' [''targets'', ''value'', ''type_comment'']
       ([(''targets'',
          PList [PNode ''Name'' [''id'', ''ctx'']
                   ([(''id'', PStr ''x''), (''ctx'', PNode ''Store'' [] [])] @ span 1 0 1 1)]),
         (''value'',
          PNode ''BinOp'' [''left'', ''op'', ''right'']
            ([(''left'', constant_of (PInt 1) (span 1 4 1 5)),
              (''op'', PNode ''Add'' [] []),
              (''right'', constant_of (PInt 2) (span 1 8 1 9))] @ span 1 4 1 9)),
         (''type_comment'', PNone)] @ span 1 0 1 9)"

definition test_parse :: "string \<Rightarrow> exn + pyval" where
  "test_parse source =
     (if source = ''pass'' then
        Inr (module_of [PNode ''Pass'' [] (span 1 0 1 4)])
      else if source = ''...'' then
        Inr (module_of
               [PNode ''Expr'' [''value'']
                  ((''value'',
                    PNode ''Constant'' [''value'', ''kind'']
                      ([(''value'', PEllipsis), (''kind'', PNone)] @ span 1 0 1 3))
                   # span 1 0 1 3)])
      else if source = ''x = 1 + 2'' then Inr (module_of [assign_stmt])
      else if source = ''def f(:'' then
        Inl (SyntaxError ''SyntaxError'' ''invalid syntax (<unknown>, line 1)''
               (Some ''invalid syntax'') (Some 1) (Some 7) (Some (''def f(:'' @ [CHR 0x0A])))
      else Inl (Exception ''NotImplementedError'' source))"

text \<open>\<open>ast.parse(**kwargs)\<close>\<close>

definition test_parse_call :: "dict \<Rightarrow> exn + pyval" where
  "test_parse_call kwargs =
     (case kwargs of
        [] \<Rightarrow>
          Inl (Exception ''TypeError''
                 (''parse() missing 1 required positional argument: '' @
                  [CHR 0x27] @ ''source'' @ [CHR 0x27]))
      | [(k, PStr s)] \<Rightarrow>
          if k = ''source'' then test_parse s
          else Inl (Exception ''NotImplementedError'' ''parse'')
      | _ \<Rightarrow> Inl (Exception ''NotImplementedError'' ''parse''))"

definition test_getattr :: "string \<Rightarrow> (dict \<Rightarrow> exn + pyval) option" where
  "test_getattr name =
     (case map_of test_classes name of
        Some (fs, located) \<Rightarrow>
          Some (\<lambda>kwargs. Inr (PNode name fs (kwargs @ class_defaults located)))
      | None \<Rightarrow>
          if name = ''PyCF_ONLY_AST'' then
            Some (\<lambda>kwargs. Inl (Exception ''TypeError''
                                  ([CHR 0x27] @ ''int'' @ [CHR 0x27] @
                                   '' object is not callable'')))
          else if name = ''parse'' then Some test_parse_call
          else None)"

text \<open>\<open>ast.unparse\<close> on a module of one statement of the table.\<close>

fun test_unparse_stmt :: "pyval \<Rightarrow> exn + string" where
  "test_unparse_stmt (PNode c fs at) =
     (if skeleton (PNode c fs at) = skeleton (PNode ''Pass'' [] []) then Inr ''pass''
      else if skeleton (PNode c fs at) =
              skeleton (PNode ''Expr'' [''value''] [(''value'', constant_of PEllipsis [])])
           then Inr ''...''
      else if skeleton (PNode c fs at) = skeleton assign_stmt then
        (if map_of at ''lineno'' = None then
           Inl (Exception ''AttributeError''
                  ([CHR 0x27] @ ''Assign'' @ [CHR 0x27] @ '' object has no attribute '' @
                   [CHR 0x27] @ ''lineno'' @ [CHR 0x27]))
         else Inr ''x = 1 + 2'')
      else Inl (Exception ''NotImplementedError'' ''tree''))"
| "test_unparse_stmt v = Inl (Exception ''NotImplementedError'' ''tree'')"

fun test_unparse :: "pyval \<Rightarrow> exn + string" where
  "test_unparse (PNode c fs at) =
     (case (c, map_of at ''body'') of
        (''Module'', Some (PList [stmt])) \<Rightarrow> test_unparse_stmt stmt
      | _ \<Rightarrow> Inl (Exception ''NotImplementedError'' ''tree''))"
| "test_unparse v = Inl (Exception ''NotImplementedError'' ''tree'')"

definition test_engine :: engine where
  "test_engine =
     \<lparr>ast_parse = test_parse,
      ast_getattr = test_getattr,
      ast_unparse = Some test_unparse,
      astor_to_source = None,
      compile_repr = (\<lambda>tree. Inl (Exception ''NotImplementedError'' ''tree''))\<rparr>"

section \<open>The decoder's answer to a document that is not a typed record\<close>

text \<open>
  C3. When the JSON value read from standard input is not a record with the key
  \<open>_type\<close>, \<open>main\<close> of \<open>unparser.py\<close> prints the one line
  \<open>{ok: false, error: {type: "ValueError", msg: "Invalid AST format"}}\<close> and returns.
  The engine does not occur in the result: nothing is reconstructed.
\<close>

theorem untyped_document_rejected:
  "\<not> has_type data \<Longrightarrow>
   unparser_main eng (Inr data) =
     \<lparr>stdout = [Json (PDict [(''ok'', PBool False),
                               (''error'', PDict [(''type'', PStr ''ValueError''),
                                                  (''msg'', PStr ''Invalid AST format'')])])],
      uncaught = None\<rparr>"
  by (simp add: unparser_main_def print_json_def json_dumps_def failure_def)

text \<open>The empty record, an array and a bare string.\<close>

theorem untyped_document_rejected_witness:
  "\<not> has_type (PDict []) \<and> \<not> has_type (PList []) \<and> \<not> has_type (PStr ''not a document'') \<and>
   unparser_main test_engine (Inr (PDict [])) =
     \<lparr>stdout = [Json (failure ''ValueError'' ''Invalid AST format'')], uncaught = None\<rparr> \<and>
   unparser_main test_engine (Inr (PList [])) =
     \<lparr>stdout = [Json (failure ''ValueError'' ''Invalid AST format'')], uncaught = None\<rparr> \<and>
   unparser_main test_engine (Inr (PStr ''not a document'')) =
     \<lparr>stdout = [Json (failure ''ValueError'' ''Invalid AST format'')], uncaught = None\<rparr>"
  using untyped_document_rejected [of "PDict []" test_engine]
        untyped_document_rejected [of "PList []" test_engine]
        untyped_document_rejected [of "PStr ''not a document''" test_engine]
  by (simp add: has_type_def failure_def)

section \<open>Unknown constructs\<close>

lemma unparser_main_failure:
  "has_type data \<Longrightarrow> unparse_try eng data = Inl e \<Longrightarrow>
   unparser_main eng (Inr data) =
     \<lparr>stdout = [Json (failure ''ValueError'' (''Failed to unparse AST: '' @ exn_str e))],
      uncaught = None\<rparr>"
  by (simp add: unparser_main_def unparse_ast_def print_json_def json_dumps_def failure_def)

lemma dict_to_ast_nonstring_type:
  "map_of d ''_type'' = Some v \<Longrightarrow> \<forall>s. v \<noteq> PStr s \<Longrightarrow>
   dict_to_ast eng (PDict d) =
     Inl (Exception ''TypeError''
            (''attribute name must be string, not '' @
             [CHR 0x27] @ py_type_name v @ [CHR 0x27]))"
  by (cases v) simp_all

lemma nonstring_type_rejected:
  "map_of d ''_type'' = Some v \<Longrightarrow> \<forall>s. v \<noteq> PStr s \<Longrightarrow>
   unparser_main eng (Inr (PDict d)) =
     \<lparr>stdout = [Json (failure ''ValueError''
                        (''Failed to unparse AST: attribute name must be string, not '' @
                         [CHR 0x27] @ py_type_name v @ [CHR 0x27]))],
      uncaught = None\<rparr>"
proof -
  assume a: "map_of d ''_type'' = Some v" "\<forall>s. v \<noteq> PStr s"
  then have "unparse_try eng (PDict d) =
     Inl (Exception ''TypeError''
            (''attribute name must be string, not '' @
             [CHR 0x27] @ py_type_name v @ [CHR 0x27]))"
    using dict_to_ast_nonstring_type [of d v eng]
    by (simp add: unparse_try_def del: dict_to_ast.simps)
  moreover from a have "has_type (PDict d)" by (simp add: has_type_def)
  ultimately show ?thesis
    using unparser_main_failure [of "PDict d" eng] by simp
qed

text \<open>
  A name that the engine does not resolve (\<open>getattr(ast, name, None)\<close> is \<open>None\<close>): \<open>main\<close>
  of \<open>unparser.py\<close> prints one failure envelope, of type \<open>ValueError\<close>, whose message
  ends with that name, and no exception leaves \<open>main\<close>.
\<close>

lemma unresolved_name_rejected:
  "lookup data ''_type'' = Some (PStr kind) \<Longrightarrow> ast_getattr eng kind = None \<Longrightarrow>
   unparser_main eng (Inr data) =
     \<lparr>stdout = [Json (PDict [(''ok'', PBool False),
                               (''error'',
                                PDict [(''type'', PStr ''ValueError''),
                                       (''msg'', PStr (''Failed to unparse AST: '' @
                                                        ''Unknown AST node type: '' @ kind))])])],
      uncaught = None\<rparr>"
proof -
  assume t: "lookup data ''_type'' = Some (PStr kind)" and u: "ast_getattr eng kind = None"
  from t obtain d where d: "data = PDict d" "map_of d ''_type'' = Some (PStr kind)"
    by (cases data) auto
  from d u have "unparse_try eng data =
      Inl (Exception ''ValueError'' (''Unknown AST node type: '' @ kind))"
    by (simp add: unparse_try_def)
  moreover from d have "has_type data" by (simp add: has_type_def)
  ultimately show ?thesis
    using unparser_main_failure [of data eng] by (simp add: failure_def)
qed

lemma unresolved_name_rejected_example:
  "unparser_main test_engine (Inr (PDict [(''_type'', PStr ''NotARealConstruct'')])) =
     \<lparr>stdout = [Json (failure ''ValueError''
                 ''Failed to unparse AST: Unknown AST node type: NotARealConstruct'')],
      uncaught = None\<rparr>"
  using unresolved_name_rejected
          [of "PDict [(''_type'', PStr ''NotARealConstruct'')]" "''NotARealConstruct''"
              test_engine]
  by (simp add: test_engine_def test_getattr_def test_classes_def failure_def)

text \<open>
  C4. The test of line 30 is whether the \<open>ast\<close> module has an attribute of the name, not
  whether the name is a production of the grammar. \<open>parse\<close> is no production, yet the
  record \<open>{"_type": "parse", "source": "pass"}\<close> is not rejected: \<open>dict_to_ast\<close> calls
  \<open>ast.parse(source="pass")\<close>, which returns a module, and \<open>main\<close> prints a success
  envelope with the source text \<open>pass\<close>.
\<close>

theorem function_name_is_decoded:
  "unparser_main test_engine
     (Inr (PDict [(''_type'', PStr ''parse''), (''source'', PStr ''pass'')])) =
     \<lparr>stdout = [Json (PDict [(''ok'', PBool True), (''source'', PStr ''pass'')])],
      uncaught = None\<rparr>"
  by (simp add: unparser_main_def has_type_def unparse_ast_def unparse_try_def
      tree_source_def json_dumps_def skipped_def position_keys_def test_engine_def
      test_getattr_def test_classes_def test_parse_call_def test_parse_def module_of_def
      span_def)

section \<open>The classification of the decoder's failures\<close>

text \<open>
  C5, as the claim states it, fails: the record \<open>{"_type": "PyCF_ONLY_AST"}\<close> names an
  integer of the \<open>ast\<close> module, calling it raises \<open>TypeError\<close>, and the envelope
  reports \<open>ValueError\<close>, with a message that is not the description of the
  \<open>TypeError\<close> but that description behind a prefix.
\<close>

theorem type_error_reported_as_value_error:
  "unparse_try test_engine (PDict [(''_type'', PStr ''PyCF_ONLY_AST'')]) =
     Inl (Exception ''TypeError''
            ([CHR 0x27] @ ''int'' @ [CHR 0x27] @ '' object is not callable'')) \<and>
   unparser_main test_engine (Inr (PDict [(''_type'', PStr ''PyCF_ONLY_AST'')])) =
     \<lparr>stdout = [Json (PDict [(''ok'', PBool False),
                               (''error'',
                                PDict [(''type'', PStr ''ValueError''),
                                       (''msg'', PStr (''Failed to unparse AST: '' @
                                                        [CHR 0x27] @ ''int'' @ [CHR 0x27] @
                                                        '' object is not callable''))])])],
      uncaught = None\<rparr>"
  by (simp add: unparser_main_def unparse_ast_def unparse_try_def has_type_def
      print_json_def json_dumps_def failure_def test_engine_def test_getattr_def
      test_classes_def)

text \<open>
  C5, amended. \<open>unparse_ast\<close> catches whatever is raised while the tree is rebuilt or
  unparsed and raises \<open>ValueError\<close> in its place. So for every typed record on which
  reconstruction or unparsing raises an exception \<open>e\<close>, the envelope printed has the type
  \<open>ValueError\<close> and the message \<open>Failed to unparse AST: \<close> followed by \<open>str(e)\<close>.
\<close>

theorem decoder_failure_is_value_error:
  "has_type data \<Longrightarrow> unparse_try eng data = Inl e \<Longrightarrow>
   unparser_main eng (Inr data) =
     \<lparr>stdout = [Json (PDict [(''ok'', PBool False),
                               (''error'',
                                PDict [(''type'', PStr ''ValueError''),
                                       (''msg'', PStr (''Failed to unparse AST: '' @
                                                        exn_str e))])])],
      uncaught = None\<rparr>"
  by (simp add: unparser_main_failure failure_def)

theorem decoder_failure_is_value_error_witness:
  "has_type (PDict [(''_type'', PStr ''PyCF_ONLY_AST'')]) \<and>
   unparse_try test_engine (PDict [(''_type'', PStr ''PyCF_ONLY_AST'')]) =
     Inl (Exception ''TypeError''
            ([CHR 0x27] @ ''int'' @ [CHR 0x27] @ '' object is not callable'')) \<and>
   unparser_main test_engine (Inr (PDict [(''_type'', PStr ''PyCF_ONLY_AST'')])) =
     \<lparr>stdout = [Json (failure ''ValueError''
                        (''Failed to unparse AST: '' @ [CHR 0x27] @ ''int'' @ [CHR 0x27] @
                         '' object is not callable''))],
      uncaught = None\<rparr>"
proof -
  have h: "has_type (PDict [(''_type'', PStr ''PyCF_ONLY_AST'')])"
    by (simp add: has_type_def)
  have r: "unparse_try test_engine (PDict [(''_type'', PStr ''PyCF_ONLY_AST'')]) =
     Inl (Exception ''TypeError''
            ([CHR 0x27] @ ''int'' @ [CHR 0x27] @ '' object is not callable''))"
    by (simp add: unparse_try_def test_engine_def test_getattr_def test_classes_def)
  from decoder_failure_is_value_error [OF h r] h r show ?thesis
    by (simp add: failure_def)
qed

section \<open>Syntax errors\<close>

text \<open>
  C6. When \<open>ast.parse\<close> raises a \<open>SyntaxError\<close> (or an instance of a subclass),
  \<open>parse_source\<close> returns a failure envelope whose error has the type \<open>SyntaxError\<close>,
  the message \<open>str(e.msg)\<close>, and \<open>e.lineno\<close>, \<open>e.offset\<close> and \<open>e.text\<close> as they are
  (\<open>None\<close> where the error has none); \<open>main\<close> prints that envelope as its one line.
\<close>

theorem syntax_error_envelope:
  "ast_parse eng source = Inl (SyntaxError cls s msg lineno offset txt) \<Longrightarrow>
   parse_source eng source =
     PDict [(''ok'', PBool False),
            (''error'', PDict [(''type'', PStr ''SyntaxError''),
                               (''msg'', PStr (str_msg msg)),
                               (''lineno'', opt_int lineno),
                               (''offset'', opt_int offset),
                               (''text'', opt_str txt)])] \<and>
   parser_main eng source =
     \<lparr>stdout = [Json (parse_source eng source)], uncaught = None\<rparr>"
  by (simp add: parse_source_def parser_main_def print_json_def json_dumps_def
      opt_int_def opt_str_def split: option.splits)

text \<open>
  The source text \<open>def f(:\<close>, for which the engine reports \<open>invalid syntax\<close> on line 1.
\<close>

theorem syntax_error_envelope_witness:
  "ast_parse test_engine ''def f(:'' =
     Inl (SyntaxError ''SyntaxError'' ''invalid syntax (<unknown>, line 1)''
            (Some ''invalid syntax'') (Some 1) (Some 7)
            (Some (''def f(:'' @ [CHR 0x0A]))) \<and>
   parse_source test_engine ''def f(:'' =
     PDict [(''ok'', PBool False),
            (''error'', PDict [(''type'', PStr ''SyntaxError''),
                               (''msg'', PStr ''invalid syntax''),
                               (''lineno'', PInt 1),
                               (''offset'', PInt 7),
                               (''text'', PStr (''def f(:'' @ [CHR 0x0A]))])] \<and>
   ''invalid syntax'' \<noteq> [] \<and>
   stdout (parser_main test_engine ''def f(:'') =
     [Json (parse_source test_engine ''def f(:'')] \<and>
   uncaught (parser_main test_engine ''def f(:'') = None"
proof -
  have p: "ast_parse test_engine ''def f(:'' =
     Inl (SyntaxError ''SyntaxError'' ''invalid syntax (<unknown>, line 1)''
            (Some ''invalid syntax'') (Some 1) (Some 7)
            (Some (''def f(:'' @ [CHR 0x0A])))"
    by (simp add: test_engine_def test_parse_def)
  from syntax_error_envelope [OF p] p show ?thesis
    by (simp add: str_msg_def opt_int_def opt_str_def)
qed

section \<open>The encoder's process boundary\<close>

text \<open>
  Whatever the engine does, \<open>parse_source\<close> returns an envelope: a dictionary whose
  first key is \<open>ok\<close>, with a boolean.
\<close>

lemma parse_source_envelope:
  "\<exists>b rest. parse_source eng source = PDict ((''ok'', PBool b) # rest)"
  by (auto simp: parse_source_def split: sum.splits exn.splits)

text \<open>
  C2. The source text \<open>...\<close> is a valid program: the expression statement of the constant
  \<open>Ellipsis\<close>. \<open>parse_source\<close> returns a success envelope that holds that object,
  \<open>json.dumps\<close> raises \<open>TypeError\<close> on it in \<open>main\<close>, where nothing catches it: the run
  prints no line and ends with the exception.
\<close>

theorem ellipsis_source_prints_nothing:
  "parser_main test_engine ''...'' =
     \<lparr>stdout = [],
      uncaught = Some (Exception ''TypeError''
                         ''Object of type ellipsis is not JSON serializable'')\<rparr>"
  by (simp add: parser_main_def print_json_def json_dumps_def parse_source_def
      test_engine_def test_parse_def module_of_def span_def copy_attr_def)

section \<open>Records without a discriminator inside a document\<close>

text \<open>
  C10. Only \<open>main\<close> rejects a record for lacking \<open>_type\<close>. Inside \<open>dict_to_ast\<close> such a
  record is returned as it is, contents untouched: as the value of a field it is stored
  under the field's key in the keyword dictionary of the parent's constructor, and as an
  element of a list it is the element of the decoded list.
\<close>

theorem untyped_record_passes_through:
  "map_of d ''_type'' = None \<Longrightarrow>
   dict_to_ast eng (PDict d) = Inr (PDict d) \<and>
   (\<not> skipped key \<longrightarrow>
      prepare_fields eng ((key, PDict d) # rest) flds =
      prepare_fields eng rest (AList.update key (PDict d) flds)) \<and>
   dict_to_ast_items eng (PDict d # xs) =
     (case dict_to_ast_items eng xs of Inl e \<Rightarrow> Inl e | Inr ys \<Rightarrow> Inr (PDict d # ys))"
  by simp

theorem untyped_record_passes_through_witness:
  "map_of [(''a'', PDict [(''_type'', PStr ''Pass'')])] ''_type'' = None \<and>
   \<not> skipped ''id'' \<and>
   dict_to_ast test_engine
     (PDict [(''_type'', PStr ''Name''),
             (''id'', PDict [(''a'', PDict [(''_type'', PStr ''Pass'')])])]) =
     Inr (PNode ''Name'' [''id'', ''ctx'']
            [(''id'', PDict [(''a'', PDict [(''_type'', PStr ''Pass'')])]),
             (''end_lineno'', PNone), (''end_col_offset'', PNone)])"
  using untyped_record_passes_through
          [of "[(''a'', PDict [(''_type'', PStr ''Pass'')])]" test_engine "''id''" "[]" "[]" "[]"]
  by (simp add: skipped_def position_keys_def test_engine_def test_getattr_def
      test_classes_def class_defaults_def)

section \<open>What the encoder stores under each key\<close>

lemma encode_field_value:
  "(case v of PList xs \<Rightarrow> PList (map ast_to_dict xs) | _ \<Rightarrow> ast_to_dict v) = ast_to_dict v"
  by (cases v) simp_all

lemma map_of_fold_update:
  "map_of (fold (\<lambda>(k, v) r. AList.update k (g v) r) xs init) k =
     (case map_of (rev xs) k of None \<Rightarrow> map_of init k | Some v \<Rightarrow> Some (g v))"
proof (induction xs arbitrary: init)
  case Nil
  show ?case by simp
next
  case (Cons x xs)
  obtain a b where x: "x = (a, b)" by (cases x)
  show ?case
    by (simp add: Cons.IH x update_conv map_add_def split: option.splits)
qed

lemma map_of_rev_iter_fields:
  "map_of (rev (iter_fields fs at)) k = (if k \<in> set fs then map_of at k else None)"
  by (induction fs) (auto simp: map_add_def split: option.splits if_splits)

lemma map_of_copy_attr:
  "map_of (copy_attr at p r) k = (if k = p \<and> map_of at p \<noteq> None then map_of at p else map_of r k)"
  by (auto simp: copy_attr_def update_conv split: option.splits)

lemma ast_to_dict_node:
  "ast_to_dict (PNode c fs at) =
     PDict (fold (\<lambda>(field, value) result. AList.update field (ast_to_dict value) result)
                 (iter_fields fs at)
                 (copy_attr at ''end_col_offset''
                   (copy_attr at ''end_lineno''
                     (copy_attr at ''col_offset''
                       (copy_attr at ''lineno'' [(''_type'', PStr c)])))))"
  by (simp add: encode_field_value)

lemma map_of_positions:
  "map_of (copy_attr at ''end_col_offset''
            (copy_attr at ''end_lineno''
              (copy_attr at ''col_offset''
                (copy_attr at ''lineno'' [(''_type'', PStr c)])))) k =
     (if k \<in> set position_keys then map_of at k
      else if k = ''_type'' then Some (PStr c) else None)"
  by (simp add: map_of_copy_attr position_keys_def)

lemma node_lookup:
  "lookup (ast_to_dict (PNode c fs at)) k =
     (if k \<in> set fs \<and> map_of at k \<noteq> None then map_option ast_to_dict (map_of at k)
      else if k \<in> set position_keys then map_of at k
      else if k = ''_type'' then Some (PStr c)
      else None)"
proof -
  have "lookup (ast_to_dict (PNode c fs at)) k =
      (case (if k \<in> set fs then map_of at k else None) of
         None \<Rightarrow> (if k \<in> set position_keys then map_of at k
                  else if k = ''_type'' then Some (PStr c) else None)
       | Some v \<Rightarrow> Some (ast_to_dict v))"
    by (simp only: ast_to_dict_node lookup.simps map_of_fold_update map_of_rev_iter_fields
        map_of_positions)
  also have "\<dots> = (if k \<in> set fs \<and> map_of at k \<noteq> None
                   then map_option ast_to_dict (map_of at k)
                   else if k \<in> set position_keys then map_of at k
                   else if k = ''_type'' then Some (PStr c)
                   else None)"
    by (cases "k \<in> set fs"; cases "map_of at k") (simp_all del: set_simps)
  finally show ?thesis .
qed

text \<open>
  C7, as the claim states it, fails. A \<open>Pass\<close> node built without position information
  (here by the decoder, from \<open>{"_type": "Pass"}\<close>) has no \<open>lineno\<close> and no \<open>col_offset\<close>,
  but the class gives it \<open>end_lineno\<close> and \<open>end_col_offset\<close> with the value \<open>None\<close>. So
  \<open>hasattr\<close> holds for these two, and the record of the node has them, as \<open>null\<close>: a
  position field is emitted that is no integer of the node's.
\<close>

theorem end_positions_emitted_as_null:
  "dict_to_ast test_engine (PDict [(''_type'', PStr ''Pass'')]) =
     Inr (PNode ''Pass'' [] [(''end_lineno'', PNone), (''end_col_offset'', PNone)]) \<and>
   ast_to_dict (PNode ''Pass'' [] [(''end_lineno'', PNone), (''end_col_offset'', PNone)]) =
     PDict [(''_type'', PStr ''Pass''), (''end_lineno'', PNone), (''end_col_offset'', PNone)]"
  by (simp add: test_engine_def test_getattr_def test_classes_def class_defaults_def
      copy_attr_def skipped_def position_keys_def)

text \<open>
  C7, amended. For each of the four position names, the record of a node has the key
  exactly when the node has the attribute (\<open>hasattr\<close>), with the attribute's value as it
  is: an integer is stored as that integer and \<open>None\<close> as \<open>null\<close>; where the name is not
  also one of the node's fields, whatever the attribute holds is stored. A node without
  the attribute gets no key: no \<open>null\<close> and no \<open>0\<close> in its place.
\<close>

theorem position_fields_copied:
  "k \<in> set position_keys \<Longrightarrow>
   (lookup (ast_to_dict (PNode c fs at)) k = None \<longleftrightarrow> map_of at k = None) \<and>
   (\<forall>i. map_of at k = Some (PInt i) \<longrightarrow>
        lookup (ast_to_dict (PNode c fs at)) k = Some (PInt i)) \<and>
   (map_of at k = Some PNone \<longrightarrow> lookup (ast_to_dict (PNode c fs at)) k = Some PNone) \<and>
   (k \<notin> set fs \<longrightarrow> lookup (ast_to_dict (PNode c fs at)) k = map_of at k)"
  by (simp only: node_lookup) auto

text \<open>
  The \<open>Pass\<close> statement of the source text \<open>pass\<close>, and the \<open>Pass\<close> node built without
  positions.
\<close>

theorem position_fields_copied_witness:
  "''lineno'' \<in> set position_keys \<and> ''end_lineno'' \<in> set position_keys \<and>
   lookup (ast_to_dict (PNode ''Pass'' [] (span 1 0 1 4))) ''lineno'' = Some (PInt 1) \<and>
   lookup (ast_to_dict (PNode ''Pass'' [] (span 1 0 1 4))) ''end_lineno'' = Some (PInt 1) \<and>
   lookup (ast_to_dict
             (PNode ''Pass'' [] [(''end_lineno'', PNone), (''end_col_offset'', PNone)]))
     ''lineno'' = None \<and>
   lookup (ast_to_dict
             (PNode ''Pass'' [] [(''end_lineno'', PNone), (''end_col_offset'', PNone)]))
     ''end_lineno'' = Some PNone"
proof -
  have l: "''lineno'' \<in> set position_keys" and e: "''end_lineno'' \<in> set position_keys"
    by (simp_all add: position_keys_def)
  from position_fields_copied [OF l, of "''Pass''" "[]" "span 1 0 1 4"]
       position_fields_copied [OF e, of "''Pass''" "[]" "span 1 0 1 4"]
       position_fields_copied
         [OF l, of "''Pass''" "[]" "[(''end_lineno'', PNone), (''end_col_offset'', PNone)]"]
       position_fields_copied
         [OF e, of "''Pass''" "[]" "[(''end_lineno'', PNone), (''end_col_offset'', PNone)]"]
       l e
  show ?thesis by (simp add: span_def)
qed

text \<open>
  C8. The record of a node has the class name under \<open>_type\<close> (no class of the grammar
  has a field of that name), and under each field that the node has, the encoding of the
  field's value. The encoding of a list is the list of the encodings of its elements, in
  the same order and number; that of a node is a record; every other value is its own
  encoding.
\<close>

theorem structural_fields_encoded:
  "(''_type'' \<notin> set fs \<longrightarrow> lookup (ast_to_dict (PNode c fs at)) ''_type'' = Some (PStr c)) \<and>
   (\<forall>f v. f \<in> set fs \<and> map_of at f = Some v \<longrightarrow>
      lookup (ast_to_dict (PNode c fs at)) f = Some (ast_to_dict v)) \<and>
   (\<forall>xs. ast_to_dict (PList xs) = PList (map ast_to_dict xs)) \<and>
   (\<forall>c' fs' at'. \<exists>d. ast_to_dict (PNode c' fs' at') = PDict d) \<and>
   (\<forall>v. (\<forall>xs. v \<noteq> PList xs) \<and> (\<forall>c' fs' at'. v \<noteq> PNode c' fs' at') \<longrightarrow> ast_to_dict v = v)"
proof (intro conjI allI impI)
  fix v assume "(\<forall>xs. v \<noteq> PList xs) \<and> (\<forall>c' fs' at'. v \<noteq> PNode c' fs' at')"
  then show "ast_to_dict v = v" by (cases v) simp_all
next
  fix xs show "ast_to_dict (PList xs) = PList (map ast_to_dict xs)" by simp
next
  fix c' fs' at'
  show "\<exists>d. ast_to_dict (PNode c' fs' at') = PDict d"
    by (simp only: ast_to_dict_node) blast
next
  assume "''_type'' \<notin> set fs"
  then show "lookup (ast_to_dict (PNode c fs at)) ''_type'' = Some (PStr c)"
    by (simp only: node_lookup) (simp add: position_keys_def)
next
  fix f v assume "f \<in> set fs \<and> map_of at f = Some v"
  then show "lookup (ast_to_dict (PNode c fs at)) f = Some (ast_to_dict v)"
    by (simp only: node_lookup) simp
qed

theorem structural_fields_encoded_witness:
  "''_type'' \<notin> set [''body'', ''type_ignores''] \<and>
   lookup (ast_to_dict (module_of [PNode ''Pass'' [] [], PNode ''Pass'' [] (span 2 0 2 4)]))
     ''_type'' = Some (PStr ''Module'') \<and>
   lookup (ast_to_dict (module_of [PNode ''Pass'' [] [], PNode ''Pass'' [] (span 2 0 2 4)]))
     ''body'' =
     Some (PList [PDict [(''_type'', PStr ''Pass'')],
                  PDict ((''_type'', PStr ''Pass'') # span 2 0 2 4)]) \<and>
   ast_to_dict (PStr ''x'') = PStr ''x'' \<and> ast_to_dict PNone = PNone"
proof -
  have h: "''_type'' \<notin> set [''body'', ''type_ignores'']" by simp
  from structural_fields_encoded
         [of "[''body'', ''type_ignores'']" "''Module''"
            "[(''body'', PList [PNode ''Pass'' [] [], PNode ''Pass'' [] (span 2 0 2 4)]),
              (''type_ignores'', PList [])]"] h
  show ?thesis by (simp add: module_of_def span_def copy_attr_def)
qed

section \<open>What the decoder passes to a constructor\<close>

lemma decode_field_value:
  "(case v of
      PList xs \<Rightarrow> (case dict_to_ast_items eng xs of Inl e \<Rightarrow> Inl e | Inr ys \<Rightarrow> Inr (PList ys))
    | _ \<Rightarrow> dict_to_ast eng v) = dict_to_ast eng v"
  by (cases v) simp_all

lemma prepare_fields_step:
  "prepare_fields eng ((key, v) # rest) flds =
     (if skipped key then prepare_fields eng rest flds
      else (case dict_to_ast eng v of
              Inl e \<Rightarrow> Inl e
            | Inr w \<Rightarrow> prepare_fields eng rest (AList.update key w flds)))"
  by (simp only: prepare_fields.simps decode_field_value)

lemma prepare_fields_lookup:
  "prepare_fields eng kvs flds = Inr kw \<Longrightarrow> distinct (map fst kvs) \<Longrightarrow>
   map_of kw k =
     (if skipped k then map_of flds k
      else (case map_of kvs k of
              None \<Rightarrow> map_of flds k
            | Some v \<Rightarrow> (case dict_to_ast eng v of Inl e \<Rightarrow> None | Inr w \<Rightarrow> Some w)))"
proof (induction kvs arbitrary: flds)
  case Nil
  then show ?case by simp
next
  case (Cons p kvs)
  obtain key v where p: "p = (key, v)" by (cases p)
  from Cons.prems(2) p have d: "distinct (map fst kvs)" and n: "map_of kvs key = None"
    by (auto simp: map_of_eq_None_iff)
  show ?case
  proof (cases "skipped key")
    case True
    with Cons.prems(1) p have "prepare_fields eng kvs flds = Inr kw"
      by (simp only: prepare_fields_step if_True)
    from Cons.IH [OF this d] True p show ?thesis by auto
  next
    case False
    with Cons.prems(1) p obtain w where w: "dict_to_ast eng v = Inr w"
      and r: "prepare_fields eng kvs (AList.update key w flds) = Inr kw"
      by (simp only: prepare_fields_step if_False split: sum.splits) auto
    from Cons.IH [OF r d] False p w n show ?thesis
      by (auto simp: update_conv split: option.splits)
  qed
qed

lemma prepare_fields_succeeds:
  "\<forall>k v. (k, v) \<in> set kvs \<and> \<not> skipped k \<longrightarrow> (\<exists>w. dict_to_ast eng v = Inr w) \<Longrightarrow>
   \<exists>kw. prepare_fields eng kvs flds = Inr kw"
proof (induction kvs arbitrary: flds)
  case Nil
  show ?case by simp
next
  case (Cons p kvs)
  obtain key v where p: "p = (key, v)" by (cases p)
  from Cons.prems
  have rest: "\<forall>k v. (k, v) \<in> set kvs \<and> \<not> skipped k \<longrightarrow> (\<exists>w. dict_to_ast eng v = Inr w)"
    by auto
  show ?case
  proof (cases "skipped key")
    case True
    with Cons.IH [OF rest, of flds] p show ?thesis
      by (simp only: prepare_fields_step if_True)
  next
    case False
    with Cons.prems p obtain w where w: "dict_to_ast eng v = Inr w" by auto
    from Cons.IH [OF rest, of "AList.update key w flds"] False p w show ?thesis
      by (simp only: prepare_fields_step if_False sum.case)
  qed
qed

text \<open>
  C9, as the claim states it, fails: the loop passes over every key that begins with an
  underscore, not \<open>_type\<close> alone. In \<open>{"_type": "Name", "_id": "x", "id": "y"}\<close> the field
  \<open>_id\<close> is neither the discriminator nor a position field, and the constructor does not
  receive it.
\<close>

theorem underscore_field_not_passed:
  "''_id'' \<noteq> ''_type'' \<and> ''_id'' \<notin> set position_keys \<and>
   prepare_fields test_engine
     [(''_type'', PStr ''Name''), (''_id'', PStr ''x''), (''id'', PStr ''y'')] [] =
     Inr [(''id'', PStr ''y'')] \<and>
   dict_to_ast test_engine
     (PDict [(''_type'', PStr ''Name''), (''_id'', PStr ''x''), (''id'', PStr ''y'')]) =
     Inr (PNode ''Name'' [''id'', ''ctx'']
            [(''id'', PStr ''y''), (''end_lineno'', PNone), (''end_col_offset'', PNone)])"
  by (simp add: skipped_def position_keys_def test_engine_def test_getattr_def
      test_classes_def class_defaults_def)

text \<open>
  C9, amended. For a record with a resolved \<open>_type\<close> whose values decode, the constructor
  is called with a keyword dictionary that has no key beginning with an underscore
  (\<open>_type\<close> among them), none of the four position names, and no key that the record
  lacks; every other key of the record is there, with the decoding of its value. The
  record comes from \<open>json.loads\<close>, so its keys are distinct.
\<close>

theorem constructor_arguments:
  assumes "map_of data ''_type'' = Some (PStr c)"
    and "ast_getattr eng c = Some node_class"
    and "distinct (map fst data)"
    and "\<forall>k v. (k, v) \<in> set data \<and> \<not> skipped k \<longrightarrow> (\<exists>w. dict_to_ast eng v = Inr w)"
  shows "\<exists>kw. dict_to_ast eng (PDict data) = node_class kw \<and>
     (\<forall>k. startswith_underscore k \<or> k \<in> set position_keys \<longrightarrow> map_of kw k = None) \<and>
     (\<forall>k. map_of data k = None \<longrightarrow> map_of kw k = None) \<and>
     (\<forall>k v. \<not> startswith_underscore k \<and> k \<notin> set position_keys \<and> map_of data k = Some v \<longrightarrow>
        (\<exists>w. dict_to_ast eng v = Inr w \<and> map_of kw k = Some w))"
proof -
  from prepare_fields_succeeds [OF assms(4), of "[]"]
  obtain kw where kw: "prepare_fields eng data [] = Inr kw" by blast
  note lk = prepare_fields_lookup [OF kw assms(3)]
  from assms(1,2) kw have "dict_to_ast eng (PDict data) = node_class kw" by simp
  moreover have "\<forall>k. startswith_underscore k \<or> k \<in> set position_keys \<longrightarrow> map_of kw k = None"
    by (simp add: lk skipped_def)
  moreover have "\<forall>k. map_of data k = None \<longrightarrow> map_of kw k = None"
    by (simp add: lk)
  moreover have "\<forall>k v. \<not> startswith_underscore k \<and> k \<notin> set position_keys \<and>
      map_of data k = Some v \<longrightarrow> (\<exists>w. dict_to_ast eng v = Inr w \<and> map_of kw k = Some w)"
  proof (intro allI impI)
    fix k v
    assume a: "\<not> startswith_underscore k \<and> k \<notin> set position_keys \<and> map_of data k = Some v"
    then have s: "\<not> skipped k" by (simp add: skipped_def)
    from a have "(k, v) \<in> set data" by (auto dest: map_of_SomeD)
    with assms(4) s obtain w where "dict_to_ast eng v = Inr w" by blast
    with a s show "\<exists>w. dict_to_ast eng v = Inr w \<and> map_of kw k = Some w"
      by (simp add: lk)
  qed
  ultimately show ?thesis by blast
qed

theorem constructor_arguments_witness:
  "dict_to_ast test_engine
     (PDict [(''_type'', PStr ''Name''), (''lineno'', PInt 1), (''id'', PStr ''y''),
             (''ctx'', PDict [(''_type'', PStr ''Load'')])]) =
     Inr (PNode ''Name'' [''id'', ''ctx'']
            [(''id'', PStr ''y''), (''ctx'', PNode ''Load'' [] []),
             (''end_lineno'', PNone), (''end_col_offset'', PNone)])"
proof -
  let ?data = "[(''_type'', PStr ''Name''), (''lineno'', PInt 1), (''id'', PStr ''y''),
                (''ctx'', PDict [(''_type'', PStr ''Load'')])]"
  let ?ctor = "\<lambda>kwargs. Inr (PNode ''Name'' [''id'', ''ctx'']
                               (kwargs @ [(''end_lineno'', PNone), (''end_col_offset'', PNone)]))
                 :: exn + pyval"
  have 1: "map_of ?data ''_type'' = Some (PStr ''Name'')" by simp
  have 2: "ast_getattr test_engine ''Name'' = Some ?ctor"
    by (simp add: test_engine_def test_getattr_def test_classes_def class_defaults_def)
  have 3: "distinct (map fst ?data)" by simp
  have 4: "\<forall>k v. (k, v) \<in> set ?data \<and> \<not> skipped k \<longrightarrow>
             (\<exists>w. dict_to_ast test_engine v = Inr w)"
    by (auto simp: test_engine_def test_getattr_def test_classes_def class_defaults_def)
  from constructor_arguments [OF 1 2 3 4]
  obtain kw where kw: "dict_to_ast test_engine (PDict ?data) = ?ctor kw"
    and a: "\<forall>k. map_of ?data k = None \<longrightarrow> map_of kw k = None"
    and b: "\<forall>k v. \<not> startswith_underscore k \<and> k \<notin> set position_keys \<and> map_of ?data k = Some v \<longrightarrow>
        (\<exists>w. dict_to_ast test_engine v = Inr w \<and> map_of kw k = Some w)"
    by blast
  from kw a b show ?thesis
    by (simp add: skipped_def position_keys_def test_engine_def test_getattr_def
        test_classes_def class_defaults_def)
qed

section \<open>The round trip of the codec\<close>

lemma distinct_fold_update:
  "distinct (map fst init) \<Longrightarrow>
   distinct (map fst (fold (\<lambda>(k, v) r. AList.update k (g v) r) xs init))"
  by (induction xs arbitrary: init) (auto simp: distinct_update)

lemma distinct_copy_attr:
  "distinct (map fst r) \<Longrightarrow> distinct (map fst (copy_attr at p r))"
  by (simp add: copy_attr_def distinct_update split: option.splits)

lemma node_record:
  "\<exists>d. ast_to_dict (PNode c fs at) = PDict d \<and> distinct (map fst d) \<and>
       (\<forall>k. map_of d k =
          (if k \<in> set fs \<and> map_of at k \<noteq> None then map_option ast_to_dict (map_of at k)
           else if k \<in> set position_keys then map_of at k
           else if k = ''_type'' then Some (PStr c)
           else None))"
proof -
  let ?d = "fold (\<lambda>(field, value) result. AList.update field (ast_to_dict value) result)
                 (iter_fields fs at)
                 (copy_attr at ''end_col_offset''
                   (copy_attr at ''end_lineno''
                     (copy_attr at ''col_offset''
                       (copy_attr at ''lineno'' [(''_type'', PStr c)]))))"
  have e: "ast_to_dict (PNode c fs at) = PDict ?d" by (rule ast_to_dict_node)
  have dd: "distinct (map fst ?d)"
    by (intro distinct_fold_update distinct_copy_attr) simp
  have "map_of ?d k =
          (if k \<in> set fs \<and> map_of at k \<noteq> None then map_option ast_to_dict (map_of at k)
           else if k \<in> set position_keys then map_of at k
           else if k = ''_type'' then Some (PStr c)
           else None)" for k
    using node_lookup [of c fs at k] by (simp only: e lookup.simps)
  with e dd show ?thesis by blast
qed

lemma iter_fields_member:
  "f \<in> set fs \<Longrightarrow> map_of at f = Some v \<Longrightarrow> (f, v) \<in> set (iter_fields fs at)"
  by (induction fs) (auto split: option.splits)

lemma fields_induct [case_names Node List Other]:
  assumes node: "\<And>c fs at. (\<And>f v. (f, v) \<in> set (iter_fields fs at) \<Longrightarrow> P v) \<Longrightarrow> P (PNode c fs at)"
    and list: "\<And>xs. (\<And>x. x \<in> set xs \<Longrightarrow> P x) \<Longrightarrow> P (PList xs)"
    and other: "\<And>v. \<forall>c fs at. v \<noteq> PNode c fs at \<Longrightarrow> \<forall>xs. v \<noteq> PList xs \<Longrightarrow> P v"
  shows "P n"
proof (induction n)
  case (PNode c fs at)
  show ?case
  proof (rule node)
    fix f v assume "(f, v) \<in> set (iter_fields fs at)"
    then have "(f, v) \<in> set at" by (rule iter_fields_subset)
    then show "P v" by (rule PNode) simp
  qed
next
  case (PList xs)
  then show ?case by (intro list)
qed (simp_all add: other)

lemma skeleton_fields_cong:
  "\<forall>f \<in> set fs. f \<notin> set position_keys \<longrightarrow>
      map_option skeleton (map_of at f) = map_option skeleton (map_of at' f) \<Longrightarrow>
   map (\<lambda>(f, v). (f, skeleton v))
       (filter (\<lambda>(f, v). f \<notin> set position_keys) (iter_fields fs at)) =
   map (\<lambda>(f, v). (f, skeleton v))
       (filter (\<lambda>(f, v). f \<notin> set position_keys) (iter_fields fs at'))"
proof (induction fs)
  case Nil
  show ?case by simp
next
  case (Cons a fs)
  from Cons.prems
  have h: "a \<notin> set position_keys \<longrightarrow>
      map_option skeleton (map_of at a) = map_option skeleton (map_of at' a)"
    by simp
  from Cons have ih: "map (\<lambda>(f, v). (f, skeleton v))
       (filter (\<lambda>(f, v). f \<notin> set position_keys) (iter_fields fs at)) =
     map (\<lambda>(f, v). (f, skeleton v))
       (filter (\<lambda>(f, v). f \<notin> set position_keys) (iter_fields fs at'))"
    by simp
  from h ih show ?case
    by (cases "map_of at a"; cases "map_of at' a") auto
qed

lemma items_round_trip:
  "\<forall>x \<in> set xs. \<exists>w. dict_to_ast eng (ast_to_dict x) = Inr w \<and> skeleton w = skeleton x \<Longrightarrow>
   \<exists>ws. dict_to_ast_items eng (map ast_to_dict xs) = Inr ws \<and>
        map skeleton ws = map skeleton xs"
proof (induction xs)
  case Nil
  show ?case by simp
next
  case (Cons x xs)
  from Cons.prems obtain w where w: "dict_to_ast eng (ast_to_dict x) = Inr w"
    "skeleton w = skeleton x" by auto
  from Cons obtain ws where ws: "dict_to_ast_items eng (map ast_to_dict xs) = Inr ws"
    "map skeleton ws = map skeleton xs" by auto
  from w ws show ?case by simp
qed

text \<open>
  The half of the round trip that stays in memory. For every tree \<open>n\<close> of the engine's
  grammar, \<open>dict_to_ast(ast_to_dict(n))\<close> returns a tree, and that tree has the shape of
  \<open>n\<close> with the same field values, position metadata left out.
\<close>

theorem codec_round_trip:
  "native eng n \<Longrightarrow>
   \<exists>n'. dict_to_ast eng (ast_to_dict n) = Inr n' \<and> skeleton n' = skeleton n"
proof (induction n rule: fields_induct)
  case (Node c fs at)
  from Node.prems obtain node_class where nc: "ast_getattr eng c = Some node_class"
    and ctor: "\<And>kwargs. \<exists>at'. node_class kwargs = Inr (PNode c fs at') \<and>
                 (\<forall>f \<in> set fs. \<forall>v. map_of kwargs f = Some v \<longrightarrow> map_of at' f = Some v)"
    by (auto simp: constructs_def)
  from Node.prems have us: "\<And>f. f \<in> set fs \<Longrightarrow> \<not> startswith_underscore f"
    and full: "\<And>f. f \<in> set fs \<Longrightarrow> map_of at f \<noteq> None" by simp_all
  have ih: "\<exists>w. dict_to_ast eng (ast_to_dict v) = Inr w \<and> skeleton w = skeleton v"
    if "f \<in> set fs" "map_of at f = Some v" for f v
  proof -
    from that have m: "(f, v) \<in> set (iter_fields fs at)" by (rule iter_fields_member)
    with Node.prems have "native eng v" by auto
    with m show ?thesis by (rule Node.IH)
  qed
  from node_record [of c fs at] obtain d where d: "ast_to_dict (PNode c fs at) = PDict d"
    and dd: "distinct (map fst d)"
    and dl: "\<And>k. map_of d k =
          (if k \<in> set fs \<and> map_of at k \<noteq> None then map_option ast_to_dict (map_of at k)
           else if k \<in> set position_keys then map_of at k
           else if k = ''_type'' then Some (PStr c)
           else None)"
    by blast
  have nt: "''_type'' \<notin> set fs" using us [of "''_type''"] by auto
  have ty: "map_of d ''_type'' = Some (PStr c)"
    by (simp add: dl nt position_keys_def)
  have field: "k \<in> set fs \<and> (\<exists>v. map_of at k = Some v \<and> v' = ast_to_dict v)"
    if "map_of d k = Some v'" "\<not> skipped k" for k v'
  proof -
    from that(2) have "k \<notin> set position_keys" "k \<noteq> ''_type''"
      by (auto simp: skipped_def)
    with that(1) show ?thesis by (auto simp: dl split: if_splits)
  qed
  have dec: "\<forall>k v'. (k, v') \<in> set d \<and> \<not> skipped k \<longrightarrow> (\<exists>w. dict_to_ast eng v' = Inr w)"
  proof (intro allI impI)
    fix k v' assume a: "(k, v') \<in> set d \<and> \<not> skipped k"
    with dd have "map_of d k = Some v'" by simp
    from field [OF this] a obtain v where "k \<in> set fs" "map_of at k = Some v"
      "v' = ast_to_dict v" by blast
    with ih [of k v] show "\<exists>w. dict_to_ast eng v' = Inr w" by blast
  qed
  from prepare_fields_succeeds [OF dec, of "[]"]
  obtain kw where kw: "prepare_fields eng d [] = Inr kw" by blast
  note kl = prepare_fields_lookup [OF kw dd]
  from ctor [of kw] obtain at' where at': "node_class kw = Inr (PNode c fs at')"
    and al: "\<And>f v. f \<in> set fs \<Longrightarrow> map_of kw f = Some v \<Longrightarrow> map_of at' f = Some v"
    by blast
  from ty nc kw at' have r: "dict_to_ast eng (PDict d) = Inr (PNode c fs at')" by simp
  have "map_option skeleton (map_of at' f) = map_option skeleton (map_of at f)"
    if f: "f \<in> set fs" "f \<notin> set position_keys" for f
  proof -
    from f us [of f] have ns: "\<not> skipped f" by (simp add: skipped_def)
    from full [OF f(1)] obtain v where v: "map_of at f = Some v" by blast
    with f have df: "map_of d f = Some (ast_to_dict v)" by (simp add: dl)
    from ih [OF f(1) v] obtain w where w: "dict_to_ast eng (ast_to_dict v) = Inr w"
      "skeleton w = skeleton v" by blast
    from ns df w have "map_of kw f = Some w" by (simp add: kl)
    from al [OF f(1) this] v w show ?thesis by simp
  qed
  then have "skeleton (PNode c fs at') = skeleton (PNode c fs at)"
    by (simp only: skeleton.simps pyval.inject) (intro conjI refl skeleton_fields_cong, blast)
  with r d show ?case by simp
next
  case (List xs)
  then have "\<forall>x \<in> set xs. \<exists>w. dict_to_ast eng (ast_to_dict x) = Inr w \<and> skeleton w = skeleton x"
    by simp
  from items_round_trip [OF this] obtain ws
    where "dict_to_ast_items eng (map ast_to_dict xs) = Inr ws"
      "map skeleton ws = map skeleton xs" by blast
  then show ?case by simp
next
  case (Other v)
  then show ?case by (cases v) simp_all
qed

text \<open>The module of the source text \<open>x = 1 + 2\<close>.\<close>

lemma codec_round_trip_example:
  "native test_engine (module_of [assign_stmt]) \<and>
   (\<exists>n'. dict_to_ast test_engine (ast_to_dict (module_of [assign_stmt])) = Inr n' \<and>
         skeleton n' = skeleton (module_of [assign_stmt]))"
proof -
  have n: "native test_engine (module_of [assign_stmt])"
    by (simp add: constructs_def test_engine_def test_getattr_def test_classes_def
        class_defaults_def module_of_def assign_stmt_def constant_of_def span_def)
  from codec_round_trip [OF n] n show ?thesis by simp
qed

text \<open>
  C1. The source text \<open>x = 1 + 2\<close> does not survive the two scripts. The encoder prints
  its tree. The decoder rebuilds the nodes without their positions (line 36 passes over
  \<open>lineno\<close>) and no position is put back before \<open>ast.unparse\<close>, which reads the
  \<open>lineno\<close> of the assignment and raises \<open>AttributeError\<close>: the decoder answers with a
  failure envelope, and there is no source text to parse again.
\<close>

theorem assignment_does_not_round_trip:
  "parser_main test_engine ''x = 1 + 2'' =
     \<lparr>stdout = [Json (PDict [(''ok'', PBool True),
                               (''ast'', ast_to_dict (module_of [assign_stmt]))])],
      uncaught = None\<rparr> \<and>
   unparser_main test_engine (Inr (ast_to_dict (module_of [assign_stmt]))) =
     \<lparr>stdout = [Json (PDict [(''ok'', PBool False),
                               (''error'',
                                PDict [(''type'', PStr ''ValueError''),
                                       (''msg'', PStr (''Failed to unparse AST: '' @
                                          [CHR 0x27] @ ''Assign'' @ [CHR 0x27] @
                                          '' object has no attribute '' @
                                          [CHR 0x27] @ ''lineno'' @ [CHR 0x27]))])])],
      uncaught = None\<rparr>"
proof -
  have enc: "ast_to_dict (module_of [assign_stmt]) =
     PDict [(''_type'', PStr ''Module''),
            (''body'',
             PList [PDict ((''_type'', PStr ''Assign'') # span 1 0 1 9 @
                       [(''targets'',
                         PList [PDict ((''_type'', PStr ''Name'') # span 1 0 1 1 @
                                       [(''id'', PStr ''x''),
                                        (''ctx'', PDict [(''_type'', PStr ''Store'')])])]),
                        (''value'',
                         PDict ((''_type'', PStr ''BinOp'') # span 1 4 1 9 @
                                [(''left'',
                                  PDict ((''_type'', PStr ''Constant'') # span 1 4 1 5 @
                                         [(''value'', PInt 1), (''kind'', PNone)])),
                                 (''op'', PDict [(''_type'', PStr ''Add'')]),
                                 (''right'',
                                  PDict ((''_type'', PStr ''Constant'') # span 1 8 1 9 @
                                         [(''value'', PInt 2), (''kind'', PNone)]))])),
                        (''type_comment'', PNone)])]),
            (''type_ignores'', PList [])]"
    by (simp add: module_of_def assign_stmt_def constant_of_def span_def copy_attr_def)
  have p: "parser_main test_engine ''x = 1 + 2'' =
     \<lparr>stdout = [Json (PDict [(''ok'', PBool True),
                               (''ast'', ast_to_dict (module_of [assign_stmt]))])],
      uncaught = None\<rparr>"
    by (simp add: parser_main_def parse_source_def print_json_def json_dumps_def
        test_engine_def test_parse_def enc span_def del: ast_to_dict.simps)
  have dec: "dict_to_ast test_engine (ast_to_dict (module_of [assign_stmt])) =
     Inr (module_of
            [PNode ''Assign'' [''targets'', ''value'', ''type_comment'']
               [(''targets'',
                 PList [PNode ''Name'' [''id'', ''ctx'']
                          [(''id'', PStr ''x''), (''ctx'', PNode ''Store'' [] []),
                           (''end_lineno'', PNone), (''end_col_offset'', PNone)]]),
                (''value'',
                 PNode ''BinOp'' [''left'', ''op'', ''right'']
                   [(''left'', constant_of (PInt 1)
                                 [(''end_lineno'', PNone), (''end_col_offset'', PNone)]),
                    (''op'', PNode ''Add'' [] []),
                    (''right'', constant_of (PInt 2)
                                  [(''end_lineno'', PNone), (''end_col_offset'', PNone)]),
                    (''end_lineno'', PNone), (''end_col_offset'', PNone)]),
                (''type_comment'', PNone),
                (''end_lineno'', PNone), (''end_col_offset'', PNone)]])"
    by (simp only: enc)
       (simp add: span_def skipped_def position_keys_def test_engine_def
          test_getattr_def test_classes_def class_defaults_def module_of_def constant_of_def)
  have u: "unparse_try test_engine (ast_to_dict (module_of [assign_stmt])) =
     Inl (Exception ''AttributeError''
            ([CHR 0x27] @ ''Assign'' @ [CHR 0x27] @ '' object has no attribute '' @
             [CHR 0x27] @ ''lineno'' @ [CHR 0x27]))"
    by (simp only: unparse_try_def dec)
       (simp add: tree_source_def test_engine_def module_of_def assign_stmt_def
          constant_of_def span_def position_keys_def)
  have h: "has_type (ast_to_dict (module_of [assign_stmt]))"
    by (simp add: enc has_type_def del: ast_to_dict.simps)
  from unparser_main_failure [OF h u] p show ?thesis
    by (simp add: failure_def del: ast_to_dict.simps)
qed

end
